theory Spec2Isabelle
  imports Complex_Main "HOL-Library.Sublist"
begin

section \<open>Python values, exceptions and the program state\<close>

text \<open>
  The script \<^verbatim>\<open>deepseek_finetune.py\<close> is sequential orchestration of library calls.
  Its own code is embedded here; every library call is a parameter (a field of the
  record \<open>env\<close> below) that returns a value or an exception and may change the outside
  world. Theorems hold for every such environment unless they say otherwise.
\<close>

text \<open>
  Exceptions. \<open>KeyboardInterrupt\<close> and \<open>SystemExit\<close> derive from
  \<^verbatim>\<open>BaseException\<close> only; the others are subclasses of \<^verbatim>\<open>Exception\<close>. The string is
  the exception's argument.
\<close>

datatype exn =
    KeyError string
  | IndexError string
  | ValueError string
  | RuntimeError string
  | OSError string
  | FileExistsError string
  | FileNotFoundError string
  | NotADirectoryError string
  | MemoryError
  | KeyboardInterrupt
  | SystemExit

fun is_Exception :: "exn \<Rightarrow> bool" where
  "is_Exception KeyboardInterrupt = False"
| "is_Exception SystemExit = False"
| "is_Exception _ = True"

text \<open>\<^verbatim>\<open>str(e)\<close>: a \<^verbatim>\<open>KeyError\<close> shows the repr of its key, the others their argument.\<close>

fun str_exn :: "exn \<Rightarrow> string" where
  "str_exn (KeyError k) = [CHR 0x27] @ k @ [CHR 0x27]"
| "str_exn (IndexError m) = m"
| "str_exn (ValueError m) = m"
| "str_exn (RuntimeError m) = m"
| "str_exn (OSError m) = m"
| "str_exn (FileExistsError m) = m"
| "str_exn (FileNotFoundError m) = m"
| "str_exn (NotADirectoryError m) = m"
| "str_exn MemoryError = []"
| "str_exn KeyboardInterrupt = []"
| "str_exn SystemExit = []"

abbreviation nl :: string where
  "nl \<equiv> [CHR 0x0A]"

text \<open>\<^verbatim>\<open>str(n)\<close> for a length.\<close>

fun str_nat :: "nat \<Rightarrow> string" where
  "str_nat n =
     (if n < 10 then [char_of (n + 48)] else str_nat (n div 10) @ [char_of (n mod 10 + 48)])"

text \<open>How an f-string renders a value that may be \<^verbatim>\<open>None\<close>.\<close>

fun py_str :: "string option \<Rightarrow> string" where
  "py_str None = ''None''"
| "py_str (Some s) = s"

text \<open>\<^verbatim>\<open>d[k]\<close> on a dict and \<^verbatim>\<open>xs[0]\<close> on a sequence.\<close>

definition getitem :: "(string \<rightharpoonup> 'v) \<Rightarrow> string \<Rightarrow> exn + 'v" where
  "getitem d k = (case d k of None \<Rightarrow> Inl (KeyError k) | Some v \<Rightarrow> Inr v)"

definition index0 :: "'a list \<Rightarrow> exn + 'a" where
  "index0 xs = (case xs of [] \<Rightarrow> Inl (IndexError ''list index out of range'') | x # _ \<Rightarrow> Inr x)"

text \<open>Sequencing of pure computations that may raise.\<close>

definition bind_exn :: "exn + 'a \<Rightarrow> ('a \<Rightarrow> exn + 'b) \<Rightarrow> exn + 'b" where
  "bind_exn r f = (case r of Inl e \<Rightarrow> Inl e | Inr x \<Rightarrow> f x)"

subsection \<open>The outside world and the state of a run\<close>

text \<open>
  A path is its list of components relative to the working directory, so that
  \<^verbatim>\<open>"offload"\<close> and \<^verbatim>\<open>"./fine_tuned_model"\<close> are \<open>[''offload'']\<close> and
  \<open>[''fine_tuned_model'']\<close>.
\<close>

type_synonym path = "string list"

fun split_slash :: "string \<Rightarrow> string \<Rightarrow> string list" where
  "split_slash acc [] = [rev acc]"
| "split_slash acc (c # cs) =
     (if c = CHR ''/'' then rev acc # split_slash [] cs else split_slash (c # acc) cs)"

definition normpath :: "string \<Rightarrow> path" where
  "normpath p = filter (\<lambda>c. c \<noteq> [] \<and> c \<noteq> ''.'') (split_slash [] p)"

datatype node = Dir | File string

text \<open>
  What a library call can read and change: the files, and \<open>ambient\<close>, which stands for
  everything else outside the script (global random state, network, device memory).
\<close>

record world =
  files :: "path \<rightharpoonup> node"
  ambient :: nat

text \<open>The library calls the script issues, in the order it issues them.\<close>

datatype call =
    AutoTokenizer_from_pretrained string "string option"
  | AutoModel_from_pretrained string "string option"
  | Enable_input_require_grads
  | Load_dataset string string
  | Train_test_split rat rat "nat option"
  | SFTTrainer_init
  | Trainer_train
  | Save_pretrained string
  | Pipeline_init
  | Pipe_call string
  | Wandb_init string
  | Wandb_log
  | Wandb_finish

record state =
  world :: world
  out :: "string list"
  calls :: "call list"

type_synonym 'a prog = "state \<Rightarrow> (exn + 'a) \<times> state"

definition ret :: "'a \<Rightarrow> 'a prog" where
  "ret x s = (Inr x, s)"

definition bnd :: "'a prog \<Rightarrow> ('a \<Rightarrow> 'b prog) \<Rightarrow> 'b prog" where
  "bnd m f s = (case m s of (Inl e, s') \<Rightarrow> (Inl e, s') | (Inr x, s') \<Rightarrow> f x s')"

text \<open>A pure computation that may raise.\<close>

definition lift :: "exn + 'a \<Rightarrow> 'a prog" where
  "lift r s = (r, s)"

text \<open>A library call: it acts on the world, and the call is recorded.\<close>

definition lib :: "call \<Rightarrow> (world \<Rightarrow> (exn + 'a) \<times> world) \<Rightarrow> 'a prog" where
  "lib c f s = (case f (world s) of (r, w) \<Rightarrow> (r, s\<lparr>world := w, calls := calls s @ [c]\<rparr>))"

text \<open>\<^verbatim>\<open>print(...)\<close>: one entry per call, the arguments joined by a space.\<close>

definition print :: "string \<Rightarrow> unit prog" where
  "print line s = (Inr (), s\<lparr>out := out s @ [line]\<rparr>)"

text \<open>\<^verbatim>\<open>try: body except Exception as e: handler e\<close>\<close>

definition try_except :: "'a prog \<Rightarrow> (exn \<Rightarrow> 'a prog) \<Rightarrow> 'a prog" where
  "try_except body handler s =
     (case body s of
        (Inl e, s') \<Rightarrow> if is_Exception e then handler e s' else (Inl e, s')
      | (Inr x, s') \<Rightarrow> (Inr x, s'))"

text \<open>
  \<^verbatim>\<open>try: body finally: fin\<close>: \<open>fin\<close> runs on every path; an exception of \<open>fin\<close>
  replaces the outcome of the body.
\<close>

definition try_finally :: "'a prog \<Rightarrow> unit prog \<Rightarrow> 'a prog" where
  "try_finally body fin s =
     (case body s of
        (r, s') \<Rightarrow> (case fin s' of (Inl e, s'') \<Rightarrow> (Inl e, s'') | (Inr _, s'') \<Rightarrow> (r, s'')))"

subsection \<open>The file operations of the smoke test\<close>

fun is_file :: "node option \<Rightarrow> bool" where
  "is_file (Some (File c)) = True"
| "is_file _ = False"

definition path_exists :: "string \<Rightarrow> state \<Rightarrow> bool" where
  "path_exists p s = (files (world s) (normpath p) \<noteq> None)"

definition is_dir :: "string \<Rightarrow> state \<Rightarrow> bool" where
  "is_dir p s = (files (world s) (normpath p) = Some Dir)"

text \<open>
  \<^verbatim>\<open>os.makedirs(p, exist_ok=...)\<close>: creates the directory and its missing ancestors;
  an existing directory is accepted when \<open>exist_ok\<close>, an existing file never.
\<close>

definition makedirs :: "string \<Rightarrow> bool \<Rightarrow> unit prog" where
  "makedirs name exist_ok s =
     (let p = normpath name; fs = files (world s) in
      if list_ex (\<lambda>q. q \<noteq> [] \<and> is_file (fs q)) (butlast (prefixes p))
      then (Inl (NotADirectoryError name), s)
      else case fs p of
          Some (File c) \<Rightarrow> (Inl (FileExistsError name), s)
        | Some Dir \<Rightarrow> if exist_ok then (Inr (), s) else (Inl (FileExistsError name), s)
        | None \<Rightarrow>
            (Inr (), s\<lparr>world := (world s)\<lparr>files :=
               (\<lambda>q. if prefix q p \<and> q \<noteq> [] \<and> fs q = None then Some Dir else fs q)\<rparr>\<rparr>))"

text \<open>\<^verbatim>\<open>shutil.rmtree(p)\<close>: removes the directory and everything below it.\<close>

definition rmtree :: "string \<Rightarrow> unit prog" where
  "rmtree name s =
     (let p = normpath name; fs = files (world s) in
      case fs p of
          None \<Rightarrow> (Inl (FileNotFoundError name), s)
        | Some (File c) \<Rightarrow> (Inl (NotADirectoryError name), s)
        | Some Dir \<Rightarrow>
            (Inr (), s\<lparr>world := (world s)\<lparr>files := (\<lambda>q. if prefix p q then None else fs q)\<rparr>\<rparr>))"

section \<open>Library objects\<close>

text \<open>The attributes of a tokenizer object that the script reads or sets.\<close>

record tokenizer =
  eos_token :: "string option"
  eos_token_id :: "nat option"
  pad_token :: "string option"
  padding_side :: string

type_synonym sample = "string \<rightharpoonup> string"

section \<open>The dataset formatter\<close>

definition MAX_NEW_TOKENS :: nat where
  "MAX_NEW_TOKENS = 2048"

definition MODEL_NAME :: string where
  "MODEL_NAME = ''deepseek-ai/DeepSeek-R1-Distill-Qwen-1.5B''"

text \<open>
  The pieces of the f-string of \<open>format_instruction\<close> between its four fields. The escape
  \<^verbatim>\<open>\n\<close> after each tag is followed by the line break of the literal itself.
\<close>

definition template_head :: string where
  "template_head =
     ''### Instruction:'' @ nl @ ''Please reason step by step:'' @ nl @ nl @ ''### Question:'' @ nl"

definition template_think :: string where
  "template_think = nl @ nl @ ''### Response:'' @ nl @ ''<think>'' @ nl @ nl"

definition template_end_think :: string where
  "template_end_think = nl @ ''</think>'' @ nl @ nl"

text \<open>The fields are looked up from left to right, as the f-string evaluates them.\<close>

definition format_instruction :: "tokenizer \<Rightarrow> sample \<Rightarrow> exn + string" where
  "format_instruction tokenizer sample =
     bind_exn (getitem sample ''Question'') (\<lambda>question.
     bind_exn (getitem sample ''Complex_CoT'') (\<lambda>complex_cot.
     bind_exn (getitem sample ''Response'') (\<lambda>response.
       Inr (template_head @ question @ template_think @ complex_cot @ template_end_think
            @ response @ nl @ py_str (eos_token tokenizer)))))"

section \<open>Library objects and the library interface\<close>

text \<open>
  Models, trainers and pipelines are opaque handles. Float literals of the source are
  the decimal values they denote.
\<close>

datatype model = Model nat
datatype trainer = Trainer nat
datatype pipeline = Pipeline nat

datatype pyval = PyStr string | PyInt int | PyFloat rat

datatype padding = Do_not_pad | Longest | Max_length

record encoding =
  input_ids :: "nat list"
  attention_mask :: "nat list"

record splits =
  train :: "sample list"
  test :: "sample list"

record load_kwargs =
  device_map :: string
  trust_remote_code :: bool
  torch_dtype :: string
  use_cache :: bool
  max_memory :: "(nat \<times> string) list"
  offload_folder :: "string option"
  offload_state_dict :: "bool option"

record lora_config =
  lora_alpha :: nat
  lora_dropout :: rat
  lora_r :: nat
  bias :: string
  task_type :: string
  target_modules :: "string list"

record training_arguments =
  output_dir :: string
  num_train_epochs :: nat
  per_device_train_batch_size :: nat
  gradient_accumulation_steps :: nat
  learning_rate :: rat
  weight_decay :: rat
  warmup_ratio :: rat
  logging_steps :: nat
  save_strategy :: string
  save_total_limit :: nat
  fp16 :: bool
  bf16 :: bool
  optim :: string
  report_to :: string
  gradient_checkpointing :: bool
  group_by_length :: bool
  max_grad_norm :: rat
  dataloader_num_workers :: nat
  remove_unused_columns :: bool
  run_name :: string
  deepspeed :: "string option"
  local_rank :: int
  ddp_find_unused_parameters :: "bool option"
  torch_compile :: bool

record collator =
  collator_tokenizer :: tokenizer
  mlm :: bool

record generation_kwargs =
  max_new_tokens :: nat
  temperature :: rat
  top_p :: rat
  repetition_penalty :: rat

text \<open>
  The library and the host. A call that can touch the outside world takes the world and
  returns its result, or the exception it raises, with the new world. The tokenizer's
  \<^verbatim>\<open>__call__\<close> takes the text and \<open>truncation\<close>, \<open>padding\<close>, \<open>max_length\<close>.
\<close>

record env =
  platform_processor :: string
  mps_is_available :: bool
  cuda_is_available :: bool
  cpu_count :: "nat option"
  wandb_init :: "string \<Rightarrow> (string \<times> pyval) list \<Rightarrow> world \<Rightarrow> (exn + unit) \<times> world"
  wandb_log_table :: "string list \<Rightarrow> string list list \<Rightarrow> world \<Rightarrow> (exn + unit) \<times> world"
  wandb_finish :: "world \<Rightarrow> (exn + unit) \<times> world"
  tokenizer_from_pretrained ::
    "string \<Rightarrow> bool \<Rightarrow> string option \<Rightarrow> world \<Rightarrow> (exn + tokenizer) \<times> world"
  tokenizer_call :: "tokenizer \<Rightarrow> string \<Rightarrow> bool \<Rightarrow> padding \<Rightarrow> nat \<Rightarrow> exn + encoding"
  model_from_pretrained :: "string \<Rightarrow> load_kwargs \<Rightarrow> world \<Rightarrow> (exn + model) \<times> world"
  has_enable_input_require_grads :: "model \<Rightarrow> bool"
  enable_input_require_grads :: "model \<Rightarrow> world \<Rightarrow> (exn + unit) \<times> world"
  load_dataset :: "string \<Rightarrow> string \<Rightarrow> world \<Rightarrow> (exn + (string \<rightharpoonup> sample list)) \<times> world"
  train_test_split ::
    "sample list \<Rightarrow> rat \<Rightarrow> rat \<Rightarrow> nat option \<Rightarrow> world \<Rightarrow> (exn + splits) \<times> world"
  sft_trainer ::
    "model \<Rightarrow> encoding list \<Rightarrow> lora_config \<Rightarrow> training_arguments \<Rightarrow> collator \<Rightarrow> world
       \<Rightarrow> (exn + trainer) \<times> world"
  trainer_train :: "trainer \<Rightarrow> world \<Rightarrow> (exn + unit) \<times> world"
  save_pretrained :: "trainer \<Rightarrow> string \<Rightarrow> world \<Rightarrow> (exn + unit) \<times> world"
  pipeline_init ::
    "model \<Rightarrow> tokenizer \<Rightarrow> generation_kwargs \<Rightarrow> nat option \<Rightarrow> world \<Rightarrow> (exn + pipeline) \<times> world"
  pipe_call ::
    "pipeline \<Rightarrow> string \<Rightarrow> generation_kwargs \<Rightarrow> world \<Rightarrow> (exn + (string \<rightharpoonup> string) list) \<times> world"

text \<open>
  \<^verbatim>\<open>Dataset.map(f, remove_columns=..., num_proc=...)\<close>: \<open>f\<close> is applied to every
  example, and the first exception of \<open>f\<close> leaves the call. Both calls of the script
  remove every input column, so a row of the result is what \<open>f\<close> returned: the text, then
  the encoding. \<^verbatim>\<open>num_proc\<close> only distributes the work.
\<close>

fun dataset_map :: "('a \<Rightarrow> exn + 'b) \<Rightarrow> 'a list \<Rightarrow> exn + 'b list" where
  "dataset_map f [] = Inr []"
| "dataset_map f (x # xs) =
     bind_exn (f x) (\<lambda>y. bind_exn (dataset_map f xs) (\<lambda>ys. Inr (y # ys)))"

section \<open>Module level: experiment tracker and device\<close>

definition wandb_config :: "(string \<times> pyval) list" where
  "wandb_config =
     [(''model_name'', PyStr MODEL_NAME),
      (''learning_rate'', PyFloat (5 / 100000)),
      (''batch_size'', PyInt 1),
      (''num_epochs'', PyInt 2),
      (''hardware'', PyStr ''Apple Silicon''),
      (''dataset'', PyStr ''medical-o1-reasoning-SFT''),
      (''lora_rank'', PyInt 8),
      (''lora_alpha'', PyInt 16)]"

datatype device = Mps | Cuda | Cpu

definition select_device :: "env \<Rightarrow> device prog" where
  "select_device env =
     (if platform_processor env = ''arm'' \<and> mps_is_available env
      then bnd (print ''Using Apple Silicon MPS (Metal Performance Shaders)'') (\<lambda>_. ret Mps)
      else if cuda_is_available env
      then bnd (print ''Using CUDA GPU'') (\<lambda>_. ret Cuda)
      else bnd (print ''Using CPU'') (\<lambda>_. ret Cpu))"

section \<open>prepare_dataset\<close>

definition split_step :: "env \<Rightarrow> sample list \<Rightarrow> splits prog" where
  "split_step env ds =
     lib (Train_test_split (9 / 10) (1 / 10) (Some 42))
         (train_test_split env ds (9 / 10) (1 / 10) (Some 42))"

definition format_step :: "tokenizer \<Rightarrow> sample list \<Rightarrow> exn + string list" where
  "format_step tokenizer ds = dataset_map (\<lambda>x. format_instruction tokenizer x) ds"

definition tokenize_step :: "env \<Rightarrow> tokenizer \<Rightarrow> string list \<Rightarrow> exn + encoding list" where
  "tokenize_step env tokenizer ds =
     dataset_map (\<lambda>text. tokenizer_call env tokenizer text True Max_length MAX_NEW_TOKENS) ds"

text \<open>Lines 69 to 89: loading the dataset and splitting it.\<close>

definition load_and_split :: "env \<Rightarrow> splits prog" where
  "load_and_split env =
     bnd (lib (Load_dataset ''FreedomIntelligence/medical-o1-reasoning-SFT'' ''en'')
              (load_dataset env ''FreedomIntelligence/medical-o1-reasoning-SFT'' ''en'')) (\<lambda>loaded.
     bnd (lift (getitem loaded ''train'')) (\<lambda>all_examples.
     bnd (print (''Dataset loaded with '' @ str_nat (length all_examples) @ '' training examples'')) (\<lambda>_.
     bnd (lift (getitem loaded ''train'')) (\<lambda>all_examples.
     split_step env all_examples))))"

definition prepare_dataset :: "env \<Rightarrow> tokenizer \<Rightarrow> encoding list prog" where
  "prepare_dataset env tokenizer =
     bnd (load_and_split env) (\<lambda>dataset.
     bnd (lift (format_step tokenizer (train dataset))) (\<lambda>formatted.
     bnd (lift (tokenize_step env tokenizer formatted)) (\<lambda>train_dataset.
     bnd (print (nl @ ''Using '' @ str_nat (length train_dataset) @ '' examples for training'')) (\<lambda>_.
     bnd (print (nl @ ''Sample formatted data:'')) (\<lambda>_.
     bnd (lift (index0 (train dataset))) (\<lambda>first_example.
     bnd (lift (format_instruction tokenizer first_example)) (\<lambda>text.
     bnd (print text) (\<lambda>_.
     ret train_dataset))))))))"

section \<open>setup_model\<close>

definition setup_model :: "env \<Rightarrow> (model \<times> tokenizer) prog" where
  "setup_model env =
     bnd (lib (AutoTokenizer_from_pretrained MODEL_NAME None)
              (tokenizer_from_pretrained env MODEL_NAME True None)) (\<lambda>loaded.
     bnd (ret (loaded\<lparr>pad_token := eos_token loaded, padding_side := ''right''\<rparr>)) (\<lambda>tokenizer.
     bnd (lib (AutoModel_from_pretrained MODEL_NAME None)
              (model_from_pretrained env MODEL_NAME
                 \<lparr>device_map = (if mps_is_available env then ''mps'' else ''auto''),
                  trust_remote_code = True, torch_dtype = ''float16'', use_cache = False,
                  max_memory = [(0, ''24GB'')], offload_folder = None,
                  offload_state_dict = None\<rparr>)) (\<lambda>model.
     bnd (if has_enable_input_require_grads env model
          then lib Enable_input_require_grads (enable_input_require_grads env model)
          else ret ()) (\<lambda>_.
     ret (model, tokenizer)))))"

section \<open>setup_trainer\<close>

definition peft_config :: lora_config where
  "peft_config =
     \<lparr>lora_alpha = 16, lora_dropout = 1 / 10, lora_r = 4, bias = ''none'',
      task_type = ''CAUSAL_LM'', target_modules = [''q_proj'', ''v_proj'']\<rparr>"

definition training_args :: training_arguments where
  "training_args =
     \<lparr>output_dir = ''deepseek-r1-medical-finetuning'',
      num_train_epochs = 1,
      per_device_train_batch_size = 2,
      gradient_accumulation_steps = 4,
      learning_rate = 1 / 10000,
      weight_decay = 1 / 100,
      warmup_ratio = 3 / 100,
      logging_steps = 10,
      save_strategy = ''epoch'',
      save_total_limit = 1,
      fp16 = True,
      bf16 = False,
      optim = ''adamw_torch_fused'',
      report_to = ''wandb'',
      gradient_checkpointing = True,
      group_by_length = True,
      max_grad_norm = 3 / 10,
      dataloader_num_workers = 0,
      remove_unused_columns = True,
      run_name = ''deepseek-medical-tutorial'',
      deepspeed = None,
      local_rank = - 1,
      ddp_find_unused_parameters = None,
      torch_compile = False\<rparr>"

text \<open>
  The constructors of the two configurations and of the collator build values; the
  trainer's constructor is the library call that receives them.
\<close>

definition setup_trainer ::
  "env \<Rightarrow> model \<Rightarrow> tokenizer \<Rightarrow> encoding list \<Rightarrow> encoding list option \<Rightarrow> trainer prog" where
  "setup_trainer env model tokenizer train_dataset eval_dataset =
     bnd (ret \<lparr>collator_tokenizer = tokenizer, mlm = False\<rparr>) (\<lambda>data_collator.
     lib SFTTrainer_init
         (sft_trainer env model train_dataset peft_config training_args data_collator))"

section \<open>test_model\<close>

definition test_problem :: string where
  "test_problem =
     ''Please reason step by step:'' @ nl @ nl
     @ ''A 45-year-old patient presents with sudden onset chest pain, shortness of breath, and anxiety. ''
     @ ''The pain is described as sharp and worsens with deep breathing. ''
     @ ''What is the most likely diagnosis and what immediate tests should be ordered?''"

definition generation :: generation_kwargs where
  "generation =
     \<lparr>max_new_tokens = MAX_NEW_TOKENS, temperature = 6 / 10, top_p = 95 / 100,
      repetition_penalty = 115 / 100\<rparr>"

text \<open>Lines 204 to 235: everything before the \<^verbatim>\<open>try\<close>.\<close>

definition test_model_setup :: "env \<Rightarrow> string \<Rightarrow> pipeline prog" where
  "test_model_setup env model_path =
     bnd (makedirs ''offload'' True) (\<lambda>_.
     bnd (lib (AutoModel_from_pretrained model_path (Some ''offload''))
              (model_from_pretrained env model_path
                 \<lparr>device_map = ''auto'', trust_remote_code = True, torch_dtype = ''float16'',
                  use_cache = False, max_memory = [(0, ''24GB'')],
                  offload_folder = Some ''offload'', offload_state_dict = Some True\<rparr>)) (\<lambda>model.
     bnd (lib (AutoTokenizer_from_pretrained MODEL_NAME (Some ''right''))
              (tokenizer_from_pretrained env MODEL_NAME True (Some ''right''))) (\<lambda>tokenizer.
     lib Pipeline_init (pipeline_init env model tokenizer generation (eos_token_id tokenizer)))))"

text \<open>\<^verbatim>\<open>result[0]["generated_text"]\<close>\<close>

definition generated_text :: "(string \<rightharpoonup> string) list \<Rightarrow> exn + string" where
  "generated_text result = bind_exn (index0 result) (\<lambda>d. getitem d ''generated_text'')"

text \<open>The body of the \<^verbatim>\<open>try\<close>; building the table and logging it is one call.\<close>

definition test_model_try :: "env \<Rightarrow> pipeline \<Rightarrow> unit prog" where
  "test_model_try env pipe =
     bnd (lib (Pipe_call test_problem) (pipe_call env pipe test_problem generation)) (\<lambda>result.
     bnd (print (nl @ ''Test Problem: '' @ test_problem)) (\<lambda>_.
     bnd (lift (generated_text result)) (\<lambda>response.
     bnd (print (nl @ ''Model Response: '' @ response)) (\<lambda>_.
     bnd (lift (generated_text result)) (\<lambda>response.
     lib Wandb_log
         (wandb_log_table env [''Test Case'', ''Model Response''] [[test_problem, response]]))))))"

definition test_model_except :: "exn \<Rightarrow> unit prog" where
  "test_model_except e =
     bnd (print (nl @ ''Error during testing: '' @ str_exn e)) (\<lambda>_.
     print ''Model was saved successfully but testing failed. You can load the model separately for testing.'')"

definition test_model_finally :: "unit prog" where
  "test_model_finally s = (if path_exists ''offload'' s then rmtree ''offload'' s else ret () s)"

definition test_model :: "env \<Rightarrow> string \<Rightarrow> unit prog" where
  "test_model env model_path =
     bnd (test_model_setup env model_path) (\<lambda>pipe.
     try_finally (try_except (test_model_try env pipe) test_model_except) test_model_finally)"

section \<open>main\<close>

definition main_body :: "env \<Rightarrow> unit prog" where
  "main_body env =
     bnd (print (nl @ ''Setting up model...'')) (\<lambda>_.
     bnd (setup_model env) (\<lambda>(model, tokenizer).
     bnd (print (nl @ ''Preparing dataset...'')) (\<lambda>_.
     bnd (prepare_dataset env tokenizer) (\<lambda>train_dataset.
     bnd (print (nl @ ''Setting up trainer...'')) (\<lambda>_.
     bnd (setup_trainer env model tokenizer train_dataset None) (\<lambda>trainer.
     bnd (print (nl @ ''Starting training...'')) (\<lambda>_.
     bnd (lib Trainer_train (trainer_train env trainer)) (\<lambda>_.
     bnd (print (nl @ ''Saving model...'')) (\<lambda>_.
     bnd (lib (Save_pretrained ''./fine_tuned_model'')
              (save_pretrained env trainer ''./fine_tuned_model'')) (\<lambda>_.
     bnd (print (nl @ ''Testing model...'')) (\<lambda>_.
     test_model env ''./fine_tuned_model'')))))))))))"

definition main :: "env \<Rightarrow> unit prog" where
  "main env = try_finally (main_body env) (lib Wandb_finish (wandb_finish env))"

text \<open>The module run as a script: tracker initialisation, device selection, \<open>main\<close>.\<close>

definition script :: "env \<Rightarrow> unit prog" where
  "script env =
     bnd (lib (Wandb_init ''deepseek-r1-medical-finetuning'')
              (wandb_init env ''deepseek-r1-medical-finetuning'' wandb_config)) (\<lambda>_.
     bnd (select_device env) (\<lambda>device.
     main env))"

section \<open>A concrete environment\<close>

text \<open>
  A small library and host on which the script can be run: a tokenizer that encodes a
  text as its character codes, truncates and pads; a split that reverses the examples when
  the seed is odd (the ambient state when there is no seed); a checkpoint writer; a model loader
  that writes into the offload folder it is given. The theorems do not depend on it; it
  serves to run the script on concrete inputs.
\<close>

definition demo_tokenizer :: tokenizer where
  "demo_tokenizer =
     \<lparr>eos_token = Some ''<eos>'', eos_token_id = Some 2, pad_token = None, padding_side = ''left''\<rparr>"

definition demo_sample :: sample where
  "demo_sample = [''Question'' \<mapsto> ''Q?'', ''Complex_CoT'' \<mapsto> ''hm'', ''Response'' \<mapsto> ''A.'']"

definition demo_sample2 :: sample where
  "demo_sample2 = [''Question'' \<mapsto> ''Why?'', ''Complex_CoT'' \<mapsto> ''so'', ''Response'' \<mapsto> ''B.'']"

definition demo_tokenizer_call :: "tokenizer \<Rightarrow> string \<Rightarrow> bool \<Rightarrow> padding \<Rightarrow> nat \<Rightarrow> exn + encoding" where
  "demo_tokenizer_call tok text truncation pad n =
     (if pad \<noteq> Do_not_pad \<and> pad_token tok = None
      then Inl (ValueError ''Asking to pad but the tokenizer does not have a padding token.'')
      else let ids = map of_char text;
               kept = (if truncation then take n ids else ids);
               fill = (if pad = Max_length then n - length kept else 0)
           in Inr \<lparr>input_ids = kept @ replicate fill 0,
                   attention_mask = replicate (length kept) 1 @ replicate fill 0\<rparr>)"

definition demo_split :: "sample list \<Rightarrow> rat \<Rightarrow> rat \<Rightarrow> nat option \<Rightarrow> world \<Rightarrow> (exn + splits) \<times> world" where
  "demo_split ds train_size test_size seed w =
     (let k = (case seed of Some sd \<Rightarrow> sd | None \<Rightarrow> ambient w);
          shuffled = (if even k then ds else rev ds);
          n_train = nat \<lfloor>train_size * of_nat (length ds)\<rfloor>
      in (Inr \<lparr>train = take n_train shuffled, test = drop n_train shuffled\<rparr>, w))"

definition demo_save :: "trainer \<Rightarrow> string \<Rightarrow> world \<Rightarrow> (exn + unit) \<times> world" where
  "demo_save t p w =
     (Inr (), w\<lparr>files := (files w)(normpath p \<mapsto> Dir,
                                  normpath p @ [''adapter_model.safetensors''] \<mapsto> File ''weights'')\<rparr>)"

definition demo_load_model :: "string \<Rightarrow> load_kwargs \<Rightarrow> world \<Rightarrow> (exn + model) \<times> world" where
  "demo_load_model name kw w =
     (case offload_folder kw of
        None \<Rightarrow> (Inr (Model 0), w)
      | Some d \<Rightarrow> (Inr (Model 1), w\<lparr>files := (files w)(normpath d @ [''weights.dat''] \<mapsto> File ''offloaded'')\<rparr>))"

definition demo_env :: env where
  "demo_env =
     \<lparr>platform_processor = ''arm'',
      mps_is_available = True,
      cuda_is_available = False,
      cpu_count = Some 8,
      wandb_init = (\<lambda>project config w. (Inr (), w)),
      wandb_log_table = (\<lambda>columns rows w. (Inr (), w)),
      wandb_finish = (\<lambda>w. (Inr (), w)),
      tokenizer_from_pretrained =
        (\<lambda>name trust side w.
           (Inr (case side of None \<Rightarrow> demo_tokenizer | Some sd \<Rightarrow> demo_tokenizer\<lparr>padding_side := sd\<rparr>), w)),
      tokenizer_call = demo_tokenizer_call,
      model_from_pretrained = demo_load_model,
      has_enable_input_require_grads = (\<lambda>m. True),
      enable_input_require_grads = (\<lambda>m w. (Inr (), w)),
      load_dataset = (\<lambda>name config w. (Inr [''train'' \<mapsto> [demo_sample, demo_sample2]], w)),
      train_test_split = demo_split,
      sft_trainer = (\<lambda>m ds lora args coll w. (Inr (Trainer 0), w)),
      trainer_train = (\<lambda>t w. (Inr (), w)),
      save_pretrained = demo_save,
      pipeline_init = (\<lambda>m tok kw pad w. (Inr (Pipeline 0), w)),
      pipe_call = (\<lambda>p prompt kw w. (Inr [[''generated_text'' \<mapsto> prompt @ '' Pulmonary embolism.'']], w))\<rparr>"

definition demo_state :: state where
  "demo_state = \<lparr>world = \<lparr>files = Map.empty, ambient = 0\<rparr>, out = [], calls = []\<rparr>"

section \<open>Traces and further concrete inputs\<close>

text \<open>
  \<open>issues m cs\<close>: whatever the state and the library do, the calls that \<open>m\<close> adds to
  the trace are a subsequence of \<open>cs\<close>, in that order.
\<close>

definition issues :: "'a prog \<Rightarrow> call list \<Rightarrow> bool" where
  "issues m cs \<longleftrightarrow> (\<forall>s. \<exists>t. calls (snd (m s)) = calls s @ t \<and> subseq t cs)"

text \<open>The library calls of \<open>main\<close> in program order.\<close>

definition main_calls :: "call list" where
  "main_calls =
     [AutoTokenizer_from_pretrained MODEL_NAME None,
      AutoModel_from_pretrained MODEL_NAME None,
      Enable_input_require_grads,
      Load_dataset ''FreedomIntelligence/medical-o1-reasoning-SFT'' ''en'',
      Train_test_split (9 / 10) (1 / 10) (Some 42),
      SFTTrainer_init,
      Trainer_train,
      Save_pretrained ''./fine_tuned_model'',
      AutoModel_from_pretrained ''./fine_tuned_model'' (Some ''offload''),
      AutoTokenizer_from_pretrained MODEL_NAME (Some ''right''),
      Pipeline_init,
      Pipe_call test_problem,
      Wandb_log,
      Wandb_finish]"

text \<open>Environments in which one library call fails, and states to start from.\<close>

definition training_fails_env :: env where
  "training_fails_env =
     demo_env\<lparr>trainer_train := (\<lambda>t w. (Inl (RuntimeError ''MPS backend out of memory''), w))\<rparr>"





text \<open>The tokenizer as \<open>setup_model\<close> returns it in the concrete environment.\<close>

definition demo_tokenizer_ready :: tokenizer where
  "demo_tokenizer_ready = demo_tokenizer\<lparr>pad_token := Some ''<eos>'', padding_side := ''right''\<rparr>"



text \<open>The fields \<open>format_instruction\<close> reads, and a record that lacks one.\<close>

definition required_fields :: "string list" where
  "required_fields = [''Question'', ''Complex_CoT'', ''Response'']"

definition sample_without_response :: sample where
  "sample_without_response = [''Question'' \<mapsto> ''Q?'', ''Complex_CoT'' \<mapsto> ''hm'']"

definition malformed_env :: env where
  "malformed_env =
     demo_env\<lparr>load_dataset :=
       (\<lambda>name config w. (Inr [''train'' \<mapsto> [sample_without_response, demo_sample]], w))\<rparr>"

text \<open>
  The environment that differs from \<open>env\<close> only in the test split its
  \<^verbatim>\<open>train_test_split\<close> returns, which becomes \<open>g\<close> of the original result.
\<close>

definition map_result :: "('a \<Rightarrow> 'b) \<Rightarrow> (exn + 'a) \<times> 's \<Rightarrow> (exn + 'b) \<times> 's" where
  "map_result h r = (case r of (Inl e, s') \<Rightarrow> (Inl e, s') | (Inr x, s') \<Rightarrow> (Inr (h x), s'))"

definition with_test_split :: "(splits \<Rightarrow> sample list) \<Rightarrow> env \<Rightarrow> env" where
  "with_test_split g env =
     env\<lparr>train_test_split :=
       (\<lambda>ds train_size test_size seed w.
          map_result (\<lambda>dataset. dataset\<lparr>test := g dataset\<rparr>)
            (train_test_split env ds train_size test_size seed w))\<rparr>"

section \<open>Basic facts about the combinators\<close>

lemma bnd_ret: "bnd (ret x) f = f x"
  by (rule ext) (simp add: bnd_def ret_def)

section \<open>The formatter\<close>

lemma sublist_mid: "sublist x (a @ x @ b)"
  by (auto simp: sublist_def)

text \<open>
  C2. For every record that has the fields \<^verbatim>\<open>Question\<close>, \<^verbatim>\<open>Complex_CoT\<close> and
  \<^verbatim>\<open>Response\<close>, \<open>format_instruction\<close> returns a string, and that string starts with
  the head of the instruction template, contains the two other pieces of the template,
  and contains the record's question and its answer verbatim.
\<close>

theorem format_instruction_contains:
  assumes "sample ''Question'' = Some question"
    and "sample ''Complex_CoT'' = Some complex_cot"
    and "sample ''Response'' = Some response"
  shows "\<exists>text. format_instruction tokenizer sample = Inr text
      \<and> text = template_head @ question @ template_think @ complex_cot @ template_end_think
               @ response @ nl @ py_str (eos_token tokenizer)
      \<and> prefix template_head text \<and> sublist template_think text
      \<and> sublist template_end_think text
      \<and> sublist question text \<and> sublist response text"
proof -
  let ?text = "template_head @ question @ template_think @ complex_cot @ template_end_think
               @ response @ nl @ py_str (eos_token tokenizer)"
  have f: "format_instruction tokenizer sample = Inr ?text"
    using assms by (simp add: format_instruction_def getitem_def bind_exn_def)
  have "sublist template_think ?text"
    using sublist_mid[of template_think "template_head @ question"] by simp
  moreover have "sublist template_end_think ?text"
    using sublist_mid[of template_end_think "template_head @ question @ template_think @ complex_cot"] by simp
  moreover have "sublist question ?text"
    using sublist_mid[of question template_head] by simp
  moreover have "sublist response ?text"
    using sublist_mid[of response "template_head @ question @ template_think @ complex_cot @ template_end_think"] by simp
  ultimately show ?thesis using f by simp
qed

theorem format_instruction_contains_witness:
  "demo_sample ''Question'' = Some ''Q?'' \<and> demo_sample ''Complex_CoT'' = Some ''hm''
   \<and> demo_sample ''Response'' = Some ''A.''
   \<and> format_instruction demo_tokenizer demo_sample =
       Inr (''### Instruction:'' @ nl @ ''Please reason step by step:'' @ nl @ nl
            @ ''### Question:'' @ nl @ ''Q?'' @ nl @ nl @ ''### Response:'' @ nl @ ''<think>'' @ nl
            @ nl @ ''hm'' @ nl @ ''</think>'' @ nl @ nl @ ''A.'' @ nl @ ''<eos>'')
   \<and> sublist ''Q?'' (projr (format_instruction demo_tokenizer demo_sample))
   \<and> sublist ''A.'' (projr (format_instruction demo_tokenizer demo_sample))"
proof -
  have h: "demo_sample ''Question'' = Some ''Q?''" "demo_sample ''Complex_CoT'' = Some ''hm''"
    "demo_sample ''Response'' = Some ''A.''"
    by (simp_all add: demo_sample_def)
  show ?thesis
    using format_instruction_contains [OF h, of demo_tokenizer] h
    by (auto simp: demo_tokenizer_def template_head_def template_think_def template_end_think_def)
qed

section \<open>Logged and effective hyperparameters\<close>

text \<open>
  C8. The configuration passed to the experiment tracker at initialisation (learning rate
  5e-5, batch size 1, 2 epochs, LoRA rank 8) and the configuration the trainer is
  constructed with (learning rate 1e-4, per-device batch size 2, 1 epoch, LoRA rank 4)
  disagree on each of the four values. Both are constants of the script, so this holds
  for every run.
\<close>

theorem logged_config_differs_from_trainer_config:
  "map_of wandb_config ''learning_rate'' = Some (PyFloat (5 / 100000))
   \<and> learning_rate training_args = 1 / 10000
   \<and> map_of wandb_config ''learning_rate'' \<noteq> Some (PyFloat (learning_rate training_args))
   \<and> map_of wandb_config ''batch_size'' = Some (PyInt 1)
   \<and> per_device_train_batch_size training_args = 2
   \<and> map_of wandb_config ''batch_size'' \<noteq> Some (PyInt (int (per_device_train_batch_size training_args)))
   \<and> map_of wandb_config ''num_epochs'' = Some (PyInt 2)
   \<and> num_train_epochs training_args = 1
   \<and> map_of wandb_config ''num_epochs'' \<noteq> Some (PyInt (int (num_train_epochs training_args)))
   \<and> map_of wandb_config ''lora_rank'' = Some (PyInt 8)
   \<and> lora_r peft_config = 4
   \<and> map_of wandb_config ''lora_rank'' \<noteq> Some (PyInt (int (lora_r peft_config)))
   \<and> script env = bnd (lib (Wandb_init ''deepseek-r1-medical-finetuning'')
                      (wandb_init env ''deepseek-r1-medical-finetuning'' wandb_config))
                 (\<lambda>_. bnd (select_device env) (\<lambda>device. main env))
   \<and> setup_trainer env model tokenizer train_dataset eval_dataset =
       lib SFTTrainer_init
         (sft_trainer env model train_dataset peft_config training_args
            \<lparr>collator_tokenizer = tokenizer, mlm = False\<rparr>)"
  by (simp add: wandb_config_def training_args_def peft_config_def script_def setup_trainer_def
      bnd_ret)

section \<open>The trace of library calls\<close>

lemma issues_ret: "issues (ret x) []"
  by (simp add: issues_def ret_def)

lemma issues_lift: "issues (lift r) []"
  by (simp add: issues_def lift_def)

lemma issues_print: "issues (print line) []"
  by (simp add: issues_def print_def)

lemma issues_lib: "issues (lib c f) [c]"
  by (simp add: issues_def lib_def split: prod.split)

lemma issues_weaken: "issues m cs \<Longrightarrow> subseq cs ds \<Longrightarrow> issues m ds"
  unfolding issues_def by (meson subseq_order.order_trans)

lemma issues_bnd:
  assumes m: "issues m cs" and f: "\<And>x. issues (f x) ds"
  shows "issues (bnd m f) (cs @ ds)"
  unfolding issues_def
proof
  fix s
  from m obtain t1 where t1: "calls (snd (m s)) = calls s @ t1" "subseq t1 cs"
    unfolding issues_def by blast
  show "\<exists>t. calls (snd (bnd m f s)) = calls s @ t \<and> subseq t (cs @ ds)"
  proof (cases "m s")
    case (Pair r s')
    show ?thesis
    proof (cases r)
      case (Inl e)
      have "subseq (t1 @ []) (cs @ ds)"
        using t1(2) by (intro list_emb_append_mono) simp_all
      with t1 Pair Inl show ?thesis by (simp add: bnd_def)
    next
      case (Inr x)
      from f[of x] obtain t2 where t2: "calls (snd (f x s')) = calls s' @ t2" "subseq t2 ds"
        unfolding issues_def by blast
      have "subseq (t1 @ t2) (cs @ ds)"
        using t1(2) t2(2) by (rule list_emb_append_mono)
      with t1 t2 Pair Inr show ?thesis by (simp add: bnd_def)
    qed
  qed
qed

lemma issues_case_prod: "(\<And>a b. issues (f a b) cs) \<Longrightarrow> issues (case_prod f x) cs"
  by (cases x) simp

lemma issues_try_except:
  assumes b: "issues body cs" and h: "\<And>e. issues (handler e) ds"
  shows "issues (try_except body handler) (cs @ ds)"
  unfolding issues_def
proof
  fix s
  from b obtain t1 where t1: "calls (snd (body s)) = calls s @ t1" "subseq t1 cs"
    unfolding issues_def by blast
  have e1: "subseq (t1 @ []) (cs @ ds)"
    using t1(2) by (intro list_emb_append_mono) simp_all
  show "\<exists>t. calls (snd (try_except body handler s)) = calls s @ t \<and> subseq t (cs @ ds)"
  proof (cases "body s")
    case (Pair r s')
    show ?thesis
    proof (cases r)
      case (Inr x)
      with t1 e1 Pair show ?thesis by (simp add: try_except_def)
    next
      case (Inl e)
      from h[of e] obtain t2 where t2: "calls (snd (handler e s')) = calls s' @ t2" "subseq t2 ds"
        unfolding issues_def by blast
      have "subseq (t1 @ t2) (cs @ ds)"
        using t1(2) t2(2) by (rule list_emb_append_mono)
      with t1 t2 e1 Pair Inl show ?thesis by (simp add: try_except_def)
    qed
  qed
qed

lemma issues_try_finally:
  assumes b: "issues body cs" and f: "issues fin ds"
  shows "issues (try_finally body fin) (cs @ ds)"
  unfolding issues_def
proof
  fix s
  from b obtain t1 where t1: "calls (snd (body s)) = calls s @ t1" "subseq t1 cs"
    unfolding issues_def by blast
  obtain r s' where p: "body s = (r, s')" by (cases "body s")
  from f obtain t2 where t2: "calls (snd (fin s')) = calls s' @ t2" "subseq t2 ds"
    unfolding issues_def by blast
  have "subseq (t1 @ t2) (cs @ ds)"
    using t1(2) t2(2) by (rule list_emb_append_mono)
  with t1 t2 p show "\<exists>t. calls (snd (try_finally body fin s)) = calls s @ t \<and> subseq t (cs @ ds)"
    by (auto simp: try_finally_def split: prod.split sum.split)
qed

lemma issues_makedirs: "issues (makedirs name ok) []"
  by (simp add: issues_def makedirs_def Let_def split: option.split node.split)

lemma issues_rmtree: "issues (rmtree name) []"
  by (simp add: issues_def rmtree_def Let_def split: option.split node.split)

lemma issues_test_model_finally: "issues test_model_finally []"
  using issues_rmtree[of "''offload''"]
  by (simp add: issues_def test_model_finally_def ret_def)

lemmas issues_intros =
  issues_bnd issues_case_prod issues_ret issues_lift issues_print issues_lib issues_makedirs
  issues_test_model_finally

lemma issues_setup_model:
  "issues (setup_model env)
     [AutoTokenizer_from_pretrained MODEL_NAME None, AutoModel_from_pretrained MODEL_NAME None,
      Enable_input_require_grads]"
proof -
  have g: "issues (if has_enable_input_require_grads env model
          then lib Enable_input_require_grads (enable_input_require_grads env model)
          else ret ()) [Enable_input_require_grads]" for model
    using issues_weaken[OF issues_ret, of "[Enable_input_require_grads]"]
    by (cases "has_enable_input_require_grads env model") (simp_all add: issues_lib)
  show ?thesis
    unfolding setup_model_def
    by (rule issues_weaken, (rule issues_intros g)+) simp
qed

lemma issues_prepare_dataset:
  "issues (prepare_dataset env tokenizer)
     [Load_dataset ''FreedomIntelligence/medical-o1-reasoning-SFT'' ''en'',
      Train_test_split (9 / 10) (1 / 10) (Some 42)]"
  unfolding prepare_dataset_def load_and_split_def split_step_def
  by (rule issues_weaken, (rule issues_intros)+) simp

lemma issues_setup_trainer:
  "issues (setup_trainer env model tokenizer ds ev) [SFTTrainer_init]"
  unfolding setup_trainer_def
  by (rule issues_weaken, (rule issues_intros)+) simp

lemma issues_test_model:
  "issues (test_model env model_path)
     [AutoModel_from_pretrained model_path (Some ''offload''),
      AutoTokenizer_from_pretrained MODEL_NAME (Some ''right''),
      Pipeline_init, Pipe_call test_problem, Wandb_log]"
  unfolding test_model_def test_model_setup_def test_model_try_def test_model_except_def
  by (rule issues_weaken, (rule issues_intros issues_try_finally issues_try_except)+) simp

lemma issues_main_body: "issues (main_body env) (butlast main_calls)"
  unfolding main_body_def
  by (rule issues_weaken,
      (rule issues_intros issues_setup_model issues_prepare_dataset issues_setup_trainer
        issues_test_model)+)
     (simp add: main_calls_def)

lemma issues_main: "issues (main env) main_calls"
proof -
  have "issues (main env) (butlast main_calls @ [Wandb_finish])"
    unfolding main_def by (rule issues_try_finally issues_main_body issues_lib)+
  then show ?thesis by (simp add: main_calls_def)
qed

lemma distinct_main_calls: "distinct main_calls"
  by (simp add: main_calls_def MODEL_NAME_def)

lemma fst_bnd:
  "fst (bnd m f s) = (case fst (m s) of Inl e \<Rightarrow> Inl e | Inr x \<Rightarrow> fst (f x (snd (m s))))"
  by (simp add: bnd_def split: prod.split sum.split)

lemma snd_bnd:
  "snd (bnd m f s) = (case fst (m s) of Inl e \<Rightarrow> snd (m s) | Inr x \<Rightarrow> snd (f x (snd (m s))))"
  by (simp add: bnd_def split: prod.split sum.split)

lemma fst_print: "fst (print line s) = Inr ()"
  by (simp add: print_def)

lemma fst_try_finally:
  "fst (try_finally body fin s) =
     (case fst (fin (snd (body s))) of Inl e \<Rightarrow> Inl e | Inr u \<Rightarrow> fst (body s))"
  by (simp add: try_finally_def split: prod.split sum.split)

lemma snd_try_finally: "snd (try_finally body fin s) = snd (fin (snd (body s)))"
  by (simp add: try_finally_def split: prod.split sum.split)

lemma fst_lib: "fst (lib c f s) = fst (f (world s))"
  by (simp add: lib_def split: prod.split)


section \<open>main finalises the experiment tracker\<close>


section \<open>The smoke test and its offload directory\<close>

lemma normpath_offload: "normpath ''offload'' = [''offload'']"
  by (simp add: normpath_def)

lemma normpath_checkpoint: "normpath ''./fine_tuned_model'' = [''fine_tuned_model'']"
  by (simp add: normpath_def)

lemma finally_cases:
  "test_model_finally s =
     (case files (world s) [''offload''] of
        None \<Rightarrow> (Inr (), s)
      | Some (File c) \<Rightarrow> (Inl (NotADirectoryError ''offload''), s)
      | Some Dir \<Rightarrow>
          (Inr (), s\<lparr>world := (world s)\<lparr>files :=
             (\<lambda>q. if prefix [''offload''] q then None else files (world s) q)\<rparr>\<rparr>))"
  by (simp add: test_model_finally_def path_exists_def rmtree_def ret_def normpath_offload Let_def
      split: option.split node.split)






lemma except_result:
  "test_model_except e s =
     (Inr (), s\<lparr>out := out s @ [nl @ ''Error during testing: '' @ str_exn e,
        ''Model was saved successfully but testing failed. You can load the model separately for testing.'']\<rparr>)"
  by (simp add: test_model_except_def bnd_def print_def)

lemma prefix_single: "(prefix q [x] \<and> q \<noteq> []) = (q = [x])"
  by (cases q) auto

lemma makedirs_offload:
  "makedirs ''offload'' True s =
     (case files (world s) [''offload''] of
        None \<Rightarrow> (Inr (), s\<lparr>world := (world s)\<lparr>files := (files (world s))([''offload''] \<mapsto> Dir)\<rparr>\<rparr>)
      | Some Dir \<Rightarrow> (Inr (), s)
      | Some (File c) \<Rightarrow> (Inl (FileExistsError ''offload''), s))"
proof -
  have upd: "(\<lambda>q. if prefix q [''offload''] \<and> q \<noteq> [] \<and> fs q = None then Some Dir else fs q)
      = fs([''offload''] \<mapsto> Dir)" if "fs [''offload''] = None" for fs :: "path \<rightharpoonup> node"
  proof (rule ext)
    fix q
    show "(if prefix q [''offload''] \<and> q \<noteq> [] \<and> fs q = None then Some Dir else fs q)
        = (fs([''offload''] \<mapsto> Dir)) q"
      using that prefix_single[of q "''offload''"] by (cases "q = [''offload'']") auto
  qed
  show ?thesis
    by (simp add: makedirs_def normpath_offload Let_def upd split: option.split node.split)
qed


lemmas run_simps =
  fst_bnd snd_bnd fst_print fst_lib fst_try_finally snd_try_finally
  lib_def print_def ret_def lift_def try_except_def
  getitem_def index0_def bind_exn_def generated_text_def
  test_model_def test_model_setup_def test_model_try_def except_result finally_cases
  makedirs_offload normpath_offload normpath_checkpoint
  demo_env_def demo_load_model_def demo_save_def demo_tokenizer_def
  is_dir_def path_exists_def split_def

lemma floor_nine_fifths: "nat \<lfloor>(9::rat) / 5\<rfloor> = Suc 0"
  by code_simp

lemma demo_split_42:
  "demo_split [a, b] (9 / 10) (1 / 10) (Some 42) w = (Inr \<lparr>train = [a], test = [b]\<rparr>, w)"
  by (simp add: demo_split_def Let_def floor_nine_fifths)

lemmas main_run_simps =
  main_def main_body_def setup_model_def prepare_dataset_def load_and_split_def split_step_def
  setup_trainer_def format_step_def tokenize_step_def format_instruction_def
  demo_split_42 demo_tokenizer_call_def demo_sample_def demo_sample2_def MAX_NEW_TOKENS_def
  Let_def



section \<open>The error boundary of the smoke test\<close>




section \<open>Running main on the concrete environment\<close>


lemma main_demo:
  "fst (main demo_env demo_state) = Inr ()"
  by (simp add: main_run_simps run_simps demo_state_def)

lemma main_demo_calls:
  "calls (snd (main demo_env demo_state)) = main_calls"
  by (simp add: main_run_simps run_simps demo_state_def main_calls_def)

section \<open>Failures outside the error boundary\<close>

lemma subseq_distinct: "subseq xs ys \<Longrightarrow> distinct ys \<Longrightarrow> distinct xs"
proof (induction rule: list_emb.induct)
  case (list_emb_Cons2 x y xs ys)
  then show ?case by (auto dest: list_emb_set)
qed simp_all

lemma main_result:
  "fst (main env s) =
     (case fst (wandb_finish env (world (snd (main_body env s)))) of
        Inl e' \<Rightarrow> Inl e' | Inr u \<Rightarrow> fst (main_body env s))"
  by (simp add: main_def fst_try_finally fst_lib)

text \<open>
  C7. Whichever step of \<open>main\<close> is the first to fail outside the \<^verbatim>\<open>try\<close> of the smoke
  test (\<open>setup_model\<close>, that is loading the tokenizer or the model; \<open>prepare_dataset\<close>,
  which a missing dataset field makes fail; \<open>setup_trainer\<close>; training; saving; or an
  exception that leaves \<open>test_model\<close>), its exception leaves the body of \<open>main\<close>, and
  \<open>main\<close> ends with an exception: that one, or the one \<^verbatim>\<open>wandb.finish\<close> raises in the
  \<^verbatim>\<open>finally\<close> clause. No library call is issued twice: the calls of a run are a
  subsequence of the program-order list, without repetition, so nothing is retried.
\<close>

theorem main_propagates_failures:
  fixes env s model tokenizer train_dataset trainer e
  defines "s1 \<equiv> snd (print (nl @ ''Setting up model...'') s)"
  defines "s2 \<equiv> snd (print (nl @ ''Preparing dataset...'') (snd (setup_model env s1)))"
  defines "s3 \<equiv> snd (print (nl @ ''Setting up trainer...'') (snd (prepare_dataset env tokenizer s2)))"
  defines "s4 \<equiv> snd (print (nl @ ''Starting training...'')
                    (snd (setup_trainer env model tokenizer train_dataset None s3)))"
  defines "s5 \<equiv> snd (print (nl @ ''Saving model...'')
                    (snd (lib Trainer_train (trainer_train env trainer) s4)))"
  defines "s6 \<equiv> snd (print (nl @ ''Testing model...'')
                    (snd (lib (Save_pretrained ''./fine_tuned_model'')
                           (save_pretrained env trainer ''./fine_tuned_model'') s5)))"
  assumes fails:
    "fst (setup_model env s1) = Inl e
     \<or> fst (setup_model env s1) = Inr (model, tokenizer)
       \<and> (fst (prepare_dataset env tokenizer s2) = Inl e
          \<or> fst (prepare_dataset env tokenizer s2) = Inr train_dataset
            \<and> (fst (setup_trainer env model tokenizer train_dataset None s3) = Inl e
               \<or> fst (setup_trainer env model tokenizer train_dataset None s3) = Inr trainer
                 \<and> (fst (trainer_train env trainer (world s4)) = Inl e
                    \<or> fst (trainer_train env trainer (world s4)) = Inr ()
                      \<and> (fst (save_pretrained env trainer ''./fine_tuned_model'' (world s5)) = Inl e
                         \<or> fst (save_pretrained env trainer ''./fine_tuned_model'' (world s5)) = Inr ()
                           \<and> fst (test_model env ''./fine_tuned_model'' s6) = Inl e))))"
  shows "fst (main_body env s) = Inl e
     \<and> fst (main env s) =
         (case fst (wandb_finish env (world (snd (main_body env s)))) of
            Inl e' \<Rightarrow> Inl e' | Inr u \<Rightarrow> Inl e)
     \<and> (\<exists>t. calls (snd (main env s)) = calls s @ t \<and> subseq t main_calls \<and> distinct t)"
proof -
  have body: "fst (main_body env s) = Inl e"
    using fails unfolding s1_def s2_def s3_def s4_def s5_def s6_def main_body_def
    by (auto simp: fst_bnd snd_bnd fst_print fst_lib)
  obtain t where t: "calls (snd (main env s)) = calls s @ t" "subseq t main_calls"
    using issues_main[of env] unfolding issues_def by blast
  have "distinct t"
    using t(2) distinct_main_calls by (rule subseq_distinct)
  with t body show ?thesis
    by (auto simp: main_result split: sum.split)
qed

theorem main_propagates_failures_witness:
  "fst (main_body training_fails_env demo_state) = Inl (RuntimeError ''MPS backend out of memory'')
   \<and> fst (main training_fails_env demo_state) = Inl (RuntimeError ''MPS backend out of memory'')
   \<and> distinct (calls (snd (main training_fails_env demo_state)))
   \<and> calls (snd (main training_fails_env demo_state)) =
       [AutoTokenizer_from_pretrained MODEL_NAME None,
        AutoModel_from_pretrained MODEL_NAME None,
        Enable_input_require_grads,
        Load_dataset ''FreedomIntelligence/medical-o1-reasoning-SFT'' ''en'',
        Train_test_split (9 / 10) (1 / 10) (Some 42),
        SFTTrainer_init, Trainer_train, Wandb_finish]"
proof -
  let ?e = "RuntimeError ''MPS backend out of memory''"
  have r: "fst (main_body training_fails_env demo_state) = Inl ?e
     \<and> fst (main training_fails_env demo_state) =
         (case fst (wandb_finish training_fails_env
                      (world (snd (main_body training_fails_env demo_state)))) of
            Inl e' \<Rightarrow> Inl e' | Inr u \<Rightarrow> Inl ?e)
     \<and> (\<exists>t. calls (snd (main training_fails_env demo_state)) = calls demo_state @ t
            \<and> subseq t main_calls \<and> distinct t)"
    by (rule main_propagates_failures [where model = "Model 0"
          and tokenizer = demo_tokenizer_ready
          and train_dataset = "projr (fst (prepare_dataset training_fails_env demo_tokenizer_ready demo_state))"
          and trainer = "Trainer 0"])
       (simp add: main_run_simps run_simps training_fails_env_def demo_state_def
          demo_tokenizer_ready_def)
  have f: "fst (wandb_finish training_fails_env
                  (world (snd (main_body training_fails_env demo_state)))) = Inr ()"
    by (simp add: training_fails_env_def demo_env_def)
  have c: "calls (snd (main training_fails_env demo_state)) =
       [AutoTokenizer_from_pretrained MODEL_NAME None,
        AutoModel_from_pretrained MODEL_NAME None,
        Enable_input_require_grads,
        Load_dataset ''FreedomIntelligence/medical-o1-reasoning-SFT'' ''en'',
        Train_test_split (9 / 10) (1 / 10) (Some 42),
        SFTTrainer_init, Trainer_train, Wandb_finish]"
    by (simp add: main_run_simps run_simps training_fails_env_def demo_state_def)
  have d: "calls demo_state = []"
    by (simp add: demo_state_def)
  from r f c d show ?thesis by auto
qed

section \<open>The split is deterministic\<close>




section \<open>Tokenized examples have the fixed length\<close>







section \<open>Records with a missing field\<close>

lemma format_instruction_missing:
  assumes "sample ''Question'' = None \<or> sample ''Complex_CoT'' = None \<or> sample ''Response'' = None"
  shows "format_instruction tokenizer sample =
     Inl (KeyError (if sample ''Question'' = None then ''Question''
                    else if sample ''Complex_CoT'' = None then ''Complex_CoT'' else ''Response''))"
  using assms by (auto simp: format_instruction_def getitem_def bind_exn_def split: option.splits)

lemma format_instruction_Inl:
  "format_instruction tokenizer sample = Inl e \<Longrightarrow> \<exists>k \<in> set required_fields. e = KeyError k"
  by (auto simp: format_instruction_def getitem_def bind_exn_def required_fields_def
      split: option.splits)

lemma dataset_map_Inl:
  "dataset_map f xs = Inl e \<Longrightarrow> \<exists>x \<in> set xs. f x = Inl e"
  by (induction xs) (auto simp: bind_exn_def split: sum.splits)

lemma dataset_map_fails:
  "x \<in> set xs \<Longrightarrow> f x = Inl e \<Longrightarrow> \<exists>e'. dataset_map f xs = Inl e'"
  by (induction xs) (auto simp: bind_exn_def split: sum.splits)

lemma format_step_missing:
  assumes "sample \<in> set ds"
    and "sample ''Question'' = None \<or> sample ''Complex_CoT'' = None \<or> sample ''Response'' = None"
  shows "\<exists>k \<in> set required_fields. format_step tokenizer ds = Inl (KeyError k)"
proof -
  obtain e where "format_step tokenizer ds = Inl e"
    using dataset_map_fails[where f = "format_instruction tokenizer",
        OF assms(1) format_instruction_missing[OF assms(2)]]
    unfolding format_step_def by blast
  moreover from this obtain x where "format_instruction tokenizer x = Inl e"
    unfolding format_step_def by (blast dest: dataset_map_Inl)
  ultimately show ?thesis
    by (auto dest: format_instruction_Inl)
qed

text \<open>
  C6. For a record that lacks one of the fields \<^verbatim>\<open>Question\<close>, \<^verbatim>\<open>Complex_CoT\<close> and
  \<^verbatim>\<open>Response\<close>, \<open>format_instruction\<close> raises \<^verbatim>\<open>KeyError\<close> for the first missing
  field; the mapping step over any dataset that contains the record ends with such a
  \<^verbatim>\<open>KeyError\<close>; and so does \<open>prepare_dataset\<close> whenever the record is in the train
  split: nothing validates the record or handles the error.
\<close>

theorem missing_field_raises_KeyError:
  assumes "sample ''Question'' = None \<or> sample ''Complex_CoT'' = None \<or> sample ''Response'' = None"
  shows "format_instruction tokenizer sample =
       Inl (KeyError (if sample ''Question'' = None then ''Question''
                      else if sample ''Complex_CoT'' = None then ''Complex_CoT'' else ''Response''))
     \<and> (sample \<in> set ds
          \<longrightarrow> (\<exists>k \<in> set required_fields. format_step tokenizer ds = Inl (KeyError k)))
     \<and> (fst (load_and_split env s) = Inr dataset \<and> sample \<in> set (train dataset)
          \<longrightarrow> (\<exists>k \<in> set required_fields. fst (prepare_dataset env tokenizer s) = Inl (KeyError k)))"
proof -
  have "\<exists>k \<in> set required_fields. fst (prepare_dataset env tokenizer s) = Inl (KeyError k)"
    if "fst (load_and_split env s) = Inr dataset" and "sample \<in> set (train dataset)"
  proof -
    from format_step_missing[OF that(2) assms, of tokenizer] obtain k
      where "k \<in> set required_fields" "format_step tokenizer (train dataset) = Inl (KeyError k)"
      by blast
    with that(1) show ?thesis
      by (auto simp: prepare_dataset_def fst_bnd lift_def)
  qed
  then show ?thesis
    using format_instruction_missing[OF assms] format_step_missing[OF _ assms] by blast
qed

theorem missing_field_raises_KeyError_witness:
  "sample_without_response ''Response'' = None
   \<and> format_instruction demo_tokenizer_ready sample_without_response = Inl (KeyError ''Response'')
   \<and> format_step demo_tokenizer_ready [sample_without_response, demo_sample] = Inl (KeyError ''Response'')
   \<and> fst (load_and_split malformed_env demo_state)
       = Inr \<lparr>train = [sample_without_response], test = [demo_sample]\<rparr>
   \<and> fst (prepare_dataset malformed_env demo_tokenizer_ready demo_state) = Inl (KeyError ''Response'')
   \<and> fst (main malformed_env demo_state) = Inl (KeyError ''Response'')"
proof -
  have h: "sample_without_response ''Question'' = None \<or> sample_without_response ''Complex_CoT'' = None
      \<or> sample_without_response ''Response'' = None"
    and n: "sample_without_response ''Question'' \<noteq> None" "sample_without_response ''Complex_CoT'' \<noteq> None"
      "sample_without_response ''Response'' = None"
    by (simp_all add: sample_without_response_def)
  have l: "fst (load_and_split malformed_env demo_state)
       = Inr \<lparr>train = [sample_without_response], test = [demo_sample]\<rparr>"
    by (simp add: main_run_simps run_simps malformed_env_def demo_state_def)
  have m: "fst (main malformed_env demo_state) = Inl (KeyError ''Response'')"
    by (simp add: main_run_simps run_simps malformed_env_def demo_state_def
        sample_without_response_def)
  have p: "fst (prepare_dataset malformed_env demo_tokenizer_ready demo_state) = Inl (KeyError ''Response'')"
    by (simp add: main_run_simps run_simps malformed_env_def demo_state_def
        sample_without_response_def demo_tokenizer_ready_def)
  have f: "format_step demo_tokenizer_ready [sample_without_response, demo_sample] = Inl (KeyError ''Response'')"
    by (simp add: main_run_simps run_simps sample_without_response_def)
  show ?thesis
    using missing_field_raises_KeyError [OF h, of demo_tokenizer_ready] n l m p f by simp
qed

lemma bnd_cong_state: "m s = m' s \<Longrightarrow> bnd m f s = bnd m' f s"
  by (simp add: bnd_def)

section \<open>The evaluation dataset and the test split are unused\<close>

lemma with_test_split_fields:
  "platform_processor (with_test_split g env) = platform_processor env"
  "mps_is_available (with_test_split g env) = mps_is_available env"
  "cuda_is_available (with_test_split g env) = cuda_is_available env"
  "cpu_count (with_test_split g env) = cpu_count env"
  "wandb_init (with_test_split g env) = wandb_init env"
  "wandb_log_table (with_test_split g env) = wandb_log_table env"
  "wandb_finish (with_test_split g env) = wandb_finish env"
  "tokenizer_from_pretrained (with_test_split g env) = tokenizer_from_pretrained env"
  "tokenizer_call (with_test_split g env) = tokenizer_call env"
  "model_from_pretrained (with_test_split g env) = model_from_pretrained env"
  "has_enable_input_require_grads (with_test_split g env) = has_enable_input_require_grads env"
  "enable_input_require_grads (with_test_split g env) = enable_input_require_grads env"
  "load_dataset (with_test_split g env) = load_dataset env"
  "sft_trainer (with_test_split g env) = sft_trainer env"
  "trainer_train (with_test_split g env) = trainer_train env"
  "save_pretrained (with_test_split g env) = save_pretrained env"
  "pipeline_init (with_test_split g env) = pipeline_init env"
  "pipe_call (with_test_split g env) = pipe_call env"
  by (simp_all add: with_test_split_def)

lemma lib_map_result: "lib c (\<lambda>w. map_result h (f w)) s = map_result h (lib c f s)"
  by (simp add: lib_def map_result_def split: prod.split sum.split)

lemma bnd_map_result_right:
  "bnd m (\<lambda>x s. map_result h (f x s)) = (\<lambda>s. map_result h (bnd m f s))"
  by (rule ext) (simp add: bnd_def map_result_def split: prod.split sum.split)

lemma bnd_map_result_left:
  assumes "\<And>x. f (h x) = f x"
  shows "bnd (\<lambda>s. map_result h (m s)) f = bnd m f"
  by (rule ext) (simp add: bnd_def map_result_def assms split: prod.split sum.split)

lemma split_step_with_test_split:
  "split_step (with_test_split g env) ds =
     (\<lambda>s. map_result (\<lambda>dataset. dataset\<lparr>test := g dataset\<rparr>) (split_step env ds s))"
  by (rule ext) (simp add: split_step_def with_test_split_def lib_map_result)

lemma load_and_split_with_test_split:
  "load_and_split (with_test_split g env) =
     (\<lambda>s. map_result (\<lambda>dataset. dataset\<lparr>test := g dataset\<rparr>) (load_and_split env s))"
  unfolding load_and_split_def with_test_split_fields split_step_with_test_split
  by (simp only: bnd_map_result_right)

lemma prepare_dataset_ignores_test:
  "prepare_dataset (with_test_split g env) tokenizer = prepare_dataset env tokenizer"
proof -
  have tok: "tokenize_step (with_test_split g env) = tokenize_step env"
    by (simp add: tokenize_step_def with_test_split_fields fun_eq_iff)
  show ?thesis
    unfolding prepare_dataset_def tok load_and_split_with_test_split
    by (rule bnd_map_result_left) simp
qed

text \<open>
  C9. \<open>setup_trainer\<close> does not depend on its \<open>eval_dataset\<close> argument: any two values
  give the same trainer construction. The test split is unused: replacing the test split
  that \<^verbatim>\<open>train_test_split\<close> returns by anything else changes neither the result of
  \<open>prepare_dataset\<close> nor anything \<open>main\<close> does.
\<close>

theorem eval_dataset_and_test_split_unused:
  "setup_trainer env model tokenizer train_dataset eval_dataset1
     = setup_trainer env model tokenizer train_dataset eval_dataset2
   \<and> prepare_dataset (with_test_split g env) tokenizer = prepare_dataset env tokenizer
   \<and> main (with_test_split g env) = main env"
proof -
  have a: "setup_model (with_test_split g env) = setup_model env"
    unfolding setup_model_def with_test_split_fields ..
  have b: "setup_trainer (with_test_split g env) = setup_trainer env"
    unfolding setup_trainer_def with_test_split_fields ..
  have c: "test_model (with_test_split g env) = test_model env"
    unfolding test_model_def test_model_setup_def test_model_try_def with_test_split_fields ..
  have "main_body (with_test_split g env) = main_body env"
    unfolding main_body_def a b c with_test_split_fields prepare_dataset_ignores_test ..
  then show ?thesis
    by (simp add: main_def with_test_split_fields prepare_dataset_ignores_test setup_trainer_def)
qed

theorem eval_dataset_and_test_split_unused_witness:
  "fst (split_step demo_env [demo_sample, demo_sample2] demo_state)
     = Inr \<lparr>train = [demo_sample], test = [demo_sample2]\<rparr>
   \<and> fst (split_step (with_test_split (\<lambda>dataset. []) demo_env) [demo_sample, demo_sample2] demo_state)
     = Inr \<lparr>train = [demo_sample], test = []\<rparr>
   \<and> main (with_test_split (\<lambda>dataset. []) demo_env) demo_state = main demo_env demo_state
   \<and> setup_trainer demo_env (Model 0) demo_tokenizer_ready [] None
     = setup_trainer demo_env (Model 0) demo_tokenizer_ready [] (Some [])"
proof -
  have "fst (split_step demo_env [demo_sample, demo_sample2] demo_state)
     = Inr \<lparr>train = [demo_sample], test = [demo_sample2]\<rparr>"
    by (simp add: split_step_def fst_lib demo_env_def demo_split_42)
  moreover have "fst (split_step (with_test_split (\<lambda>dataset. []) demo_env) [demo_sample, demo_sample2] demo_state)
     = Inr \<lparr>train = [demo_sample], test = []\<rparr>"
    by (simp add: split_step_def fst_lib demo_env_def demo_split_42 with_test_split_def map_result_def)
  ultimately show ?thesis
    using eval_dataset_and_test_split_unused [of demo_env "Model 0" demo_tokenizer_ready "[]" None
        "Some []" "\<lambda>dataset. []"]
    by simp
qed

end
